theory Spec2Isabelle
  imports Complex_Main
begin

section \<open>Values held by the component\<close>

text \<open>
  \<^verbatim>\<open>src/App.tsx\<close> keeps four \<^verbatim>\<open>useState\<close> cells: \<^verbatim>\<open>image\<close>, \<^verbatim>\<open>isAnalyzing\<close>,
  \<^verbatim>\<open>result\<close> and \<^verbatim>\<open>error\<close>. \<^verbatim>\<open>result\<close> is declared \<^verbatim>\<open>AnalysisResult | null\<close>, but what is
  stored in it is whatever \<^verbatim>\<open>JSON.parse\<close> returns, so it is modelled as a JavaScript value
  built from JSON: \<open>JNull\<close> is \<^verbatim>\<open>null\<close>. An object is the list of its own properties;
  a property that is not in the list reads as \<^verbatim>\<open>undefined\<close>. A number is abstracted to the
  rational it denotes. Strings are byte strings (the ASCII range of the source's strings).
\<close>

datatype json =
    JNull
  | JBool bool
  | JNumber rat
  | JString string
  | JArray "json list"
  | JObject "(string \<times> json) list"

record app_state =
  image_st :: "string option"
  isAnalyzing :: bool
  result :: json
  error :: "string option"

text \<open>The initial values of the four \<^verbatim>\<open>useState\<close> calls (lines 70-73).\<close>

definition initial_state :: app_state where
  "initial_state = \<lparr>image_st = None, isAnalyzing = False, result = JNull, error = None\<rparr>"

text \<open>The four setters. None of the handlers reads the state, so a setter is an assignment.\<close>

definition setImage :: "string option \<Rightarrow> app_state \<Rightarrow> app_state" where
  "setImage v st = st\<lparr>image_st := v\<rparr>"

definition setIsAnalyzing :: "bool \<Rightarrow> app_state \<Rightarrow> app_state" where
  "setIsAnalyzing v st = st\<lparr>isAnalyzing := v\<rparr>"

definition setResult :: "json \<Rightarrow> app_state \<Rightarrow> app_state" where
  "setResult v st = st\<lparr>result := v\<rparr>"

definition setError :: "string option \<Rightarrow> app_state \<Rightarrow> app_state" where
  "setError v st = st\<lparr>error := v\<rparr>"

text \<open>\<^verbatim>\<open>reset\<close> (lines 139-143): three setters, in the source's order.\<close>

definition reset :: "app_state \<Rightarrow> app_state" where
  "reset st = setError None (setResult JNull (setImage None st))"

section \<open>The outbound request\<close>

text \<open>
  The argument of \<^verbatim>\<open>ai.models.generateContent\<close> (lines 83-114). The record keeps the
  source's field names, except \<^verbatim>\<open>text\<close>, a keyword here, which is \<open>prompt\<close>.
\<close>

datatype schema =
    STRING
  | ARRAY schema
  | OBJECT "(string \<times> schema) list" "string list"

record request =
  model :: string
  mimeType :: string
  data :: "string option"
  prompt :: string
  responseMimeType :: string
  responseSchema :: schema

text \<open>
  \<^verbatim>\<open>s.split(',')\<close>: the pieces of \<open>s\<close> between the separators; there is always at least
  one piece. \<^verbatim>\<open>xs[1]\<close> of an array that has no index 1 is \<^verbatim>\<open>undefined\<close>, here \<open>None\<close>.
\<close>

fun split_str :: "char \<Rightarrow> string \<Rightarrow> string list" where
  "split_str sep [] = [[]]"
| "split_str sep (c # cs) =
     (if c = sep then [] # split_str sep cs
      else (case split_str sep cs of
              [] \<Rightarrow> [[c]]
            | piece # pieces \<Rightarrow> (c # piece) # pieces))"

definition at_index :: "'a list \<Rightarrow> nat \<Rightarrow> 'a option" where
  "at_index xs i = (if i < length xs then Some (xs ! i) else None)"

text \<open>
  The seven fields of \<^verbatim>\<open>AnalysisResult\<close> (lines 33-41), in the order of the schema's
  \<^verbatim>\<open>required\<close> list (line 111).
\<close>

definition fieldNames :: "string list" where
  "fieldNames = [''diseaseName'', ''scientificName'', ''confidence'', ''symptoms'',
                 ''causes'', ''treatment'', ''prevention'']"

definition generateContent_request :: "string \<Rightarrow> request" where
  "generateContent_request base64Image =
     \<lparr>model = ''gemini-3-flash-preview'',
      mimeType = ''image/jpeg'',
      data = at_index (split_str (CHR '','') base64Image) 1,
      prompt = ''Analyze this plant image for diseases. Provide a detailed diagnosis in JSON format. If the plant is healthy, state it clearly. Include: diseaseName, scientificName, confidence (percentage), symptoms (array), causes (array), treatment (markdown string), and prevention (markdown string).'',
      responseMimeType = ''application/json'',
      responseSchema =
        OBJECT [(''diseaseName'', STRING), (''scientificName'', STRING),
                (''confidence'', STRING), (''symptoms'', ARRAY STRING),
                (''causes'', ARRAY STRING), (''treatment'', STRING),
                (''prevention'', STRING)]
               fieldNames\<rparr>"

text \<open>
  The file picker (lines 126-137) hands \<^verbatim>\<open>analyzeImage\<close> the string that
  \<^verbatim>\<open>FileReader.readAsDataURL\<close> produced. That function belongs to the browser; by the
  File API it yields \<^verbatim>\<open>data:\<close>, the file's declared type, \<^verbatim>\<open>;base64,\<close> and the base64
  text of the bytes. A file is modelled by its declared type and that base64 text.
\<close>

record picked_file =
  file_type :: string
  file_base64 :: string

definition readAsDataURL :: "picked_file \<Rightarrow> string" where
  "readAsDataURL f = ''data:'' @ file_type f @ '';base64,'' @ file_base64 f"

section \<open>analyzeImage\<close>

text \<open>
  \<^verbatim>\<open>analyzeImage\<close> (lines 76-124) runs in two synchronous pieces. The first (lines 77-79)
  runs when it is called and ends at the \<^verbatim>\<open>await\<close>. The second runs when the call has
  settled: lines 116-117 on a response, line 120 in the \<^verbatim>\<open>catch\<close>, and line 122 in the
  \<^verbatim>\<open>finally\<close> on both paths. No other handler runs inside a piece.
\<close>

definition analyzeImage_begin :: "app_state \<Rightarrow> app_state" where
  "analyzeImage_begin st = setResult JNull (setError None (setIsAnalyzing True st))"

text \<open>
  What the \<^verbatim>\<open>await\<close> delivers: the call throws or rejects (a network failure, a
  non-success status, an exception of the client library), with the value thrown; or it
  resolves with a response whose \<^verbatim>\<open>text\<close> is a string or \<^verbatim>\<open>undefined\<close>.
\<close>

datatype call_outcome =
    Rejected string
  | Resolved "string option"

text \<open>\<^verbatim>\<open>response.text || "{}"\<close>: \<^verbatim>\<open>undefined\<close> and the empty string are the falsy cases.\<close>

definition body_or_default :: "string option \<Rightarrow> string" where
  "body_or_default t = (case t of None \<Rightarrow> ''{}'' | Some s \<Rightarrow> if s = [] then ''{}'' else s)"

text \<open>
  \<^verbatim>\<open>JSON.parse\<close> is the platform's; it is the parameter \<open>parse\<close>, \<open>None\<close> when it throws
  \<^verbatim>\<open>SyntaxError\<close>. The \<^verbatim>\<open>try\<close> block yields the parsed data, or the value thrown.
\<close>

type_synonym parser = "string \<Rightarrow> json option"

fun try_block :: "parser \<Rightarrow> call_outcome \<Rightarrow> string + json" where
  "try_block parse (Rejected err) = Inl err"
| "try_block parse (Resolved t) =
     (case parse (body_or_default t) of
        None \<Rightarrow> Inl ''SyntaxError''
      | Some d \<Rightarrow> Inr d)"

definition failure_message :: string where
  "failure_message = ''Failed to analyze image. Please try again with a clearer photo.''"

text \<open>
  The \<^verbatim>\<open>catch\<close> also writes the value thrown to the console (line 119); the console is
  not part of the component's state and is left out.
\<close>

definition analyzeImage_settle :: "parser \<Rightarrow> call_outcome \<Rightarrow> app_state \<Rightarrow> app_state" where
  "analyzeImage_settle parse outcome st =
     setIsAnalyzing False
       (case try_block parse outcome of
          Inr d \<Rightarrow> setResult d st
        | Inl err \<Rightarrow> setError (Some failure_message) st)"

text \<open>A whole call during which no other handler runs.\<close>

definition analyzeImage :: "parser \<Rightarrow> call_outcome \<Rightarrow> app_state \<Rightarrow> app_state" where
  "analyzeImage parse outcome st = analyzeImage_settle parse outcome (analyzeImage_begin st)"

text \<open>
  \<^verbatim>\<open>reader.onloadend\<close> of \<^verbatim>\<open>handleFileChange\<close> (lines 130-134): store the image, then
  call \<^verbatim>\<open>analyzeImage\<close>, which runs up to its \<^verbatim>\<open>await\<close>.
\<close>

definition onloadend :: "string \<Rightarrow> app_state \<Rightarrow> app_state" where
  "onloadend base64 st = analyzeImage_begin (setImage (Some base64) st)"

section \<open>Events and interleavings\<close>

text \<open>
  The component runs on the event loop: a file that has been read, a click on a reset
  button, and the settling of a call that is in flight each run one synchronous piece.
  The world is the component's state and the number of calls issued and not yet settled.
  A call can settle only if one is in flight. A call whose \<^verbatim>\<open>try\<close> block throws before
  the \<^verbatim>\<open>await\<close> is \<open>FileLoaded\<close> followed at once by \<open>CallSettled (Rejected err)\<close>.
\<close>

record world =
  app :: app_state
  in_flight :: nat

datatype event =
    FileLoaded string
  | ResetClicked
  | CallSettled call_outcome

definition initial_world :: world where
  "initial_world = \<lparr>app = initial_state, in_flight = 0\<rparr>"

fun fire :: "parser \<Rightarrow> world \<Rightarrow> event \<Rightarrow> world option" where
  "fire parse w (FileLoaded base64) =
     Some \<lparr>app = onloadend base64 (app w), in_flight = Suc (in_flight w)\<rparr>"
| "fire parse w ResetClicked =
     Some \<lparr>app = reset (app w), in_flight = in_flight w\<rparr>"
| "fire parse w (CallSettled outcome) =
     (if in_flight w = 0 then None
      else Some \<lparr>app = analyzeImage_settle parse outcome (app w),
                 in_flight = in_flight w - 1\<rparr>)"

fun run :: "parser \<Rightarrow> world \<Rightarrow> event list \<Rightarrow> world option" where
  "run parse w [] = Some w"
| "run parse w (e # es) =
     (case fire parse w e of None \<Rightarrow> None | Some w' \<Rightarrow> run parse w' es)"

text \<open>
  A sequence of events in which a file is submitted only while no call is in flight;
  \<open>n\<close> is the number of calls in flight before the sequence.
\<close>

fun one_at_a_time :: "nat \<Rightarrow> event list \<Rightarrow> bool" where
  "one_at_a_time n [] = True"
| "one_at_a_time n (FileLoaded base64 # es) = (n = 0 \<and> one_at_a_time (Suc n) es)"
| "one_at_a_time n (ResetClicked # es) = one_at_a_time n es"
| "one_at_a_time n (CallSettled outcome # es) = one_at_a_time (n - 1) es"

section \<open>What is rendered\<close>

text \<open>
  The view tests the state with JavaScript truthiness: \<^verbatim>\<open>null\<close>, \<^verbatim>\<open>false\<close>, \<^verbatim>\<open>0\<close> and
  the empty string are falsy, every object and array is truthy.
\<close>

fun truthy :: "json \<Rightarrow> bool" where
  "truthy JNull = False"
| "truthy (JBool b) = b"
| "truthy (JNumber x) = (x \<noteq> 0)"
| "truthy (JString s) = (s \<noteq> [])"
| "truthy (JArray xs) = True"
| "truthy (JObject kvs) = True"

definition truthy_str :: "string option \<Rightarrow> bool" where
  "truthy_str v = (case v of None \<Rightarrow> False | Some s \<Rightarrow> s \<noteq> [])"

text \<open>
  The four states of the workflow, each by the condition under which the view shows its
  panel: the error panel (line 227), the placeholder (line 248), the result panel
  (line 278), and the flag behind the spinner (line 195).
\<close>

definition Failed :: "app_state \<Rightarrow> bool" where
  "Failed st = truthy_str (error st)"

definition Idle :: "app_state \<Rightarrow> bool" where
  "Idle st = (\<not> truthy (result st) \<and> \<not> isAnalyzing st \<and> \<not> truthy_str (error st))"

definition Ready :: "app_state \<Rightarrow> bool" where
  "Ready st = truthy (result st)"

definition Analyzing :: "app_state \<Rightarrow> bool" where
  "Analyzing st = isAnalyzing st"

text \<open>
  Reading a property of a value that is not \<^verbatim>\<open>null\<close>: \<open>None\<close> is \<^verbatim>\<open>undefined\<close>. None of
  the seven names is a property of a boolean, a number, a string or an array.
\<close>

fun get_prop :: "json \<Rightarrow> string \<Rightarrow> json option" where
  "get_prop (JObject kvs) k = map_of kvs k"
| "get_prop v k = None"









section \<open>A concrete response\<close>

text \<open>
  The response of the specification's scenario, as the object it denotes and as the text
  a service would send for it.
\<close>

definition healthy_props :: "(string \<times> json) list" where
  "healthy_props =
     [(''diseaseName'', JString ''Healthy''),
      (''scientificName'', JString []),
      (''confidence'', JString ''99%''),
      (''symptoms'', JArray []),
      (''causes'', JArray []),
      (''treatment'', JString ''No action needed.''),
      (''prevention'', JString ''Maintain watering schedule.'')]"

definition healthy_response :: json where
  "healthy_response = JObject healthy_props"

definition healthy_text :: string where
  "healthy_text = ''{\"diseaseName\":\"Healthy\",\"scientificName\":\"\",\"confidence\":\"99%\",\"symptoms\":[],\"causes\":[],\"treatment\":\"No action needed.\",\"prevention\":\"Maintain watering schedule.\"}''"

text \<open>
  A finite piece of \<^verbatim>\<open>JSON.parse\<close>, to instantiate the parameter \<open>parse\<close> at concrete
  inputs. The two texts it accepts are JSON and it gives their values. It rejects every
  other text, so it is applied only to these two and to texts that are not JSON.
\<close>

definition sample_parse :: parser where
  "sample_parse s =
     (if s = ''{}'' then Some (JObject [])
      else if s = healthy_text then Some healthy_response
      else None)"

section \<open>Invariants of the interleavings\<close>

text \<open>While the flag is set, nothing is shown: holds in every reachable world.\<close>

definition cleared_while_analyzing :: "world \<Rightarrow> bool" where
  "cleared_while_analyzing w =
     (isAnalyzing (app w) \<longrightarrow> result (app w) = JNull \<and> error (app w) = None)"

text \<open>
  What holds as long as calls do not overlap: at most one call is in flight, nothing is
  shown while it is, and a result and an error are never there together.
\<close>

definition serial_inv :: "world \<Rightarrow> bool" where
  "serial_inv w =
     (in_flight w \<le> 1
      \<and> (in_flight w = 1 \<longrightarrow> result (app w) = JNull \<and> error (app w) = None)
      \<and> (result (app w) = JNull \<or> error (app w) = None))"


section \<open>Helper facts\<close>

lemmas setters = setError_def setResult_def setImage_def setIsAnalyzing_def

lemmas handlers =
  reset_def analyzeImage_begin_def analyzeImage_settle_def analyzeImage_def onloadend_def

lemmas world_defs = initial_world_def initial_state_def

lemma begin_eq:
  "analyzeImage_begin st = st\<lparr>isAnalyzing := True, error := None, result := JNull\<rparr>"
  by (simp add: handlers setters)

lemma reset_eq: "reset st = st\<lparr>image_st := None, result := JNull, error := None\<rparr>"
  by (simp add: handlers setters)

lemma settle_eq:
  "analyzeImage_settle parse oc st =
     (case try_block parse oc of
        Inr d \<Rightarrow> st\<lparr>result := d, isAnalyzing := False\<rparr>
      | Inl e \<Rightarrow> st\<lparr>error := Some failure_message, isAnalyzing := False\<rparr>)"
  by (simp add: handlers setters split: sum.splits)

lemma onloadend_eq:
  "onloadend b st
     = st\<lparr>image_st := Some b, isAnalyzing := True, error := None, result := JNull\<rparr>"
  by (simp add: handlers setters)

lemma fire_cleared:
  assumes "fire parse w e = Some w'" "cleared_while_analyzing w"
  shows "cleared_while_analyzing w'"
proof (cases e)
  case (FileLoaded b)
  with assms show ?thesis by (auto simp: cleared_while_analyzing_def onloadend_eq)
next
  case ResetClicked
  with assms show ?thesis by (auto simp: cleared_while_analyzing_def reset_eq)
next
  case (CallSettled oc)
  with assms show ?thesis
    by (auto simp: cleared_while_analyzing_def settle_eq split: if_splits sum.splits)
qed

lemma run_cleared:
  "run parse w es = Some w' \<Longrightarrow> cleared_while_analyzing w \<Longrightarrow> cleared_while_analyzing w'"
proof (induction es arbitrary: w)
  case Nil
  then show ?case by simp
next
  case (Cons e es)
  then obtain w1 where f: "fire parse w e = Some w1" and r: "run parse w1 es = Some w'"
    by (auto split: option.splits)
  from fire_cleared[OF f Cons.prems(2)] Cons.IH[OF r] show ?case by blast
qed

lemma fire_serial:
  assumes "fire parse w e = Some w'" "serial_inv w" "one_at_a_time (in_flight w) (e # es)"
  shows "serial_inv w' \<and> one_at_a_time (in_flight w') es"
proof (cases e)
  case (FileLoaded b)
  with assms show ?thesis by (auto simp: serial_inv_def onloadend_eq)
next
  case ResetClicked
  with assms show ?thesis by (auto simp: serial_inv_def reset_eq)
next
  case (CallSettled oc)
  with assms show ?thesis
    by (auto simp: serial_inv_def settle_eq split: if_splits sum.splits)
qed

lemma run_serial:
  "run parse w es = Some w' \<Longrightarrow> serial_inv w \<Longrightarrow> one_at_a_time (in_flight w) es
     \<Longrightarrow> serial_inv w'"
proof (induction es arbitrary: w)
  case Nil
  then show ?case by simp
next
  case (Cons e es)
  then obtain w1 where f: "fire parse w e = Some w1" and r: "run parse w1 es = Some w'"
    by (auto split: option.splits)
  from fire_serial[OF f Cons.prems(2) Cons.prems(3)] Cons.IH[OF r] show ?case by blast
qed

lemma run_snoc:
  "run parse w (es @ [e]) =
     (case run parse w es of None \<Rightarrow> None | Some w1 \<Rightarrow> fire parse w1 e)"
  by (induction es arbitrary: w) (auto split: option.splits)

lemma one_at_a_time_prefix:
  "one_at_a_time n (es @ fs) \<Longrightarrow> one_at_a_time n es"
proof (induction es arbitrary: n)
  case Nil
  then show ?case by simp
next
  case (Cons e es)
  then show ?case by (cases e) auto
qed

lemma settle_after_serial:
  assumes "run parse initial_world (es @ [CallSettled outcome]) = Some w"
    and "one_at_a_time 0 (es @ [CallSettled outcome])"
  shows "\<exists>st. result st = JNull \<and> error st = None
            \<and> app w = analyzeImage_settle parse outcome st"
proof -
  from assms(1) obtain w1 where r: "run parse initial_world es = Some w1"
    and f: "fire parse w1 (CallSettled outcome) = Some w"
    by (auto simp: run_snoc split: option.splits)
  have "serial_inv initial_world"
    by (simp add: serial_inv_def initial_world_def initial_state_def)
  moreover have "one_at_a_time (in_flight initial_world) es"
    using one_at_a_time_prefix[OF assms(2)] by (simp add: initial_world_def)
  ultimately have inv: "serial_inv w1" using run_serial[OF r] by blast
  from f have "in_flight w1 \<noteq> 0" and a: "app w = analyzeImage_settle parse outcome (app w1)"
    by (auto split: if_splits)
  with inv have "result (app w1) = JNull \<and> error (app w1) = None"
    by (auto simp: serial_inv_def)
  with a show ?thesis by blast
qed








section \<open>Properties\<close>

subsection \<open>C1: a result and an error together\<close>

text \<open>
  C1, as stated, says that no sequence of submissions, resets and settlements reaches a
  state with both a result and an error. The component does not tag or cancel a call: a
  first call that resolves after a second one was submitted stores its result, and the
  second call's failure then stores the error beside it.
\<close>

theorem stale_call_counterexample:
  "run sample_parse initial_world
     [FileLoaded ''data:image/jpeg;base64,AAAA'', ResetClicked,
      FileLoaded ''data:image/jpeg;base64,BBBB'',
      CallSettled (Resolved (Some healthy_text)),
      CallSettled (Rejected ''offline'')]
   = Some \<lparr>app = \<lparr>image_st = Some ''data:image/jpeg;base64,BBBB'', isAnalyzing = False,
                   result = healthy_response, error = Some failure_message\<rparr>,
           in_flight = 0\<rparr>
   \<and> healthy_response \<noteq> JNull \<and> Some failure_message \<noteq> None
   \<and> Ready \<lparr>image_st = Some ''data:image/jpeg;base64,BBBB'', isAnalyzing = False,
                   result = healthy_response, error = Some failure_message\<rparr>
   \<and> Failed \<lparr>image_st = Some ''data:image/jpeg;base64,BBBB'', isAnalyzing = False,
                   result = healthy_response, error = Some failure_message\<rparr>"
  by (simp add: world_defs onloadend_eq reset_eq settle_eq body_or_default_def
        sample_parse_def healthy_text_def healthy_response_def Ready_def Failed_def
        truthy_str_def failure_message_def)

text \<open>
  C1, amended. Entering \<open>Analyzing\<close> clears both, a successful settlement stores only the
  result, a failed one stores only the error; and in every state reached by a sequence in
  which an image is submitted only while no earlier call is in flight, the result and the
  error are never both present.
\<close>

theorem result_error_exclusive:
  "result (analyzeImage_begin st) = JNull \<and> error (analyzeImage_begin st) = None
   \<and> (\<forall>d. try_block parse outcome = Inr d \<longrightarrow>
          analyzeImage_settle parse outcome st = st\<lparr>result := d, isAnalyzing := False\<rparr>)
   \<and> (\<forall>err. try_block parse outcome = Inl err \<longrightarrow>
          analyzeImage_settle parse outcome st
            = st\<lparr>error := Some failure_message, isAnalyzing := False\<rparr>)
   \<and> (\<forall>es w. one_at_a_time 0 es \<longrightarrow> run parse initial_world es = Some w \<longrightarrow>
          \<not> (result (app w) \<noteq> JNull \<and> error (app w) \<noteq> None))"
proof -
  have "serial_inv initial_world"
    by (simp add: serial_inv_def initial_world_def initial_state_def)
  then have "\<forall>es w. one_at_a_time 0 es \<longrightarrow> run parse initial_world es = Some w
               \<longrightarrow> serial_inv w"
    using run_serial[of parse initial_world] by (simp add: initial_world_def)
  then show ?thesis
    by (auto simp add: begin_eq settle_eq serial_inv_def)
qed

theorem result_error_exclusive_witness:
  "one_at_a_time 0
     [FileLoaded ''data:image/jpeg;base64,AAAA'', CallSettled (Rejected ''offline'')]
   \<and> run sample_parse initial_world
        [FileLoaded ''data:image/jpeg;base64,AAAA'', CallSettled (Rejected ''offline'')]
      = Some \<lparr>app = \<lparr>image_st = Some ''data:image/jpeg;base64,AAAA'', isAnalyzing = False,
                      result = JNull, error = Some failure_message\<rparr>,
              in_flight = 0\<rparr>
   \<and> try_block sample_parse (Rejected ''offline'') = Inl ''offline''
   \<and> try_block sample_parse (Resolved None) = Inr (JObject [])
   \<and> \<not> (result \<lparr>image_st = Some ''data:image/jpeg;base64,AAAA'', isAnalyzing = False,
                      result = JNull, error = Some failure_message\<rparr> \<noteq> JNull
          \<and> error \<lparr>image_st = Some ''data:image/jpeg;base64,AAAA'', isAnalyzing = False,
                      result = JNull, error = Some failure_message\<rparr> \<noteq> None)"
  using result_error_exclusive [of initial_state sample_parse "Rejected ''offline''"]
  by (simp add: world_defs onloadend_eq settle_eq body_or_default_def sample_parse_def)

subsection \<open>C2: empty and unparsable bodies\<close>

text \<open>
  C2, as stated, says that a body that cannot be parsed is replaced by an empty object
  and does not lead to \<open>Failed\<close>. The fallback of line 116 applies to a missing or empty
  body only; on any other body \<^verbatim>\<open>JSON.parse\<close> runs inside the \<^verbatim>\<open>try\<close> block, and its
  exception is caught like every other.
\<close>

theorem unparsable_body_counterexample:
  "sample_parse (body_or_default (Some ''<html>'')) = None
   \<and> Failed (analyzeImage sample_parse (Resolved (Some ''<html>'')) initial_state)
   \<and> result (analyzeImage sample_parse (Resolved (Some ''<html>'')) initial_state) = JNull
   \<and> error (analyzeImage sample_parse (Resolved (Some ''<html>'')) initial_state)
       = Some failure_message"
  by (simp add: analyzeImage_def settle_eq begin_eq body_or_default_def sample_parse_def
        healthy_text_def Failed_def truthy_str_def failure_message_def initial_state_def)

text \<open>
  C2, amended. When the body of the response is missing or empty, the controller parses
  the fallback text instead: the settlement stores the empty object as the result, each
  of the seven fields of which reads as undefined, clears the flag and does not write the
  error. When the parser rejects the body that is parsed, the settlement stores the fixed
  message, so the state is \<open>Failed\<close>, clears the flag and does not write the result. In
  every sequence in which an image is submitted only while no earlier call is in flight,
  the state after the first kind of response has the empty object, no error and is not
  \<open>Failed\<close>, and the state after the second kind is \<open>Failed\<close> with the fixed message and no
  result.
\<close>

theorem empty_body_fallback:
  "(parse ''{}'' = Some (JObject []) \<longrightarrow> t = None \<or> t = Some [] \<longrightarrow>
      analyzeImage_settle parse (Resolved t) st
        = st\<lparr>result := JObject [], isAnalyzing := False\<rparr>
      \<and> (\<forall>f \<in> set fieldNames.
            get_prop (result (analyzeImage_settle parse (Resolved t) st)) f = None)
      \<and> error (analyzeImage_settle parse (Resolved t) st) = error st
      \<and> analyzeImage parse (Resolved t) st
        = st\<lparr>error := None, result := JObject [], isAnalyzing := False\<rparr>
      \<and> (one_at_a_time 0 (es @ [CallSettled (Resolved t)]) \<longrightarrow>
         run parse initial_world (es @ [CallSettled (Resolved t)]) = Some w \<longrightarrow>
           result (app w) = JObject [] \<and> error (app w) = None
           \<and> \<not> Failed (app w) \<and> \<not> Analyzing (app w)))
   \<and> (parse (body_or_default t) = None \<longrightarrow>
      analyzeImage_settle parse (Resolved t) st
        = st\<lparr>error := Some failure_message, isAnalyzing := False\<rparr>
      \<and> Failed (analyzeImage_settle parse (Resolved t) st)
      \<and> result (analyzeImage_settle parse (Resolved t) st) = result st
      \<and> analyzeImage parse (Resolved t) st
        = st\<lparr>isAnalyzing := False, result := JNull, error := Some failure_message\<rparr>
      \<and> (one_at_a_time 0 (es @ [CallSettled (Resolved t)]) \<longrightarrow>
         run parse initial_world (es @ [CallSettled (Resolved t)]) = Some w \<longrightarrow>
           Failed (app w) \<and> error (app w) = Some failure_message
           \<and> result (app w) = JNull \<and> \<not> Analyzing (app w)))"
proof -
  have empty: "result (app w) = JObject [] \<and> error (app w) = None
           \<and> \<not> Failed (app w) \<and> \<not> Analyzing (app w)"
    if p: "parse ''{}'' = Some (JObject [])" and e: "t = None \<or> t = Some []"
      and o: "one_at_a_time 0 (es @ [CallSettled (Resolved t)])"
      and r: "run parse initial_world (es @ [CallSettled (Resolved t)]) = Some w"
  proof -
    from settle_after_serial[OF r o] obtain st0 where
      "result st0 = JNull" "error st0 = None"
      "app w = analyzeImage_settle parse (Resolved t) st0" by blast
    with p e show ?thesis
      by (auto simp: settle_eq body_or_default_def Failed_def Analyzing_def truthy_str_def)
  qed
  have bad: "Failed (app w) \<and> error (app w) = Some failure_message
           \<and> result (app w) = JNull \<and> \<not> Analyzing (app w)"
    if p: "parse (body_or_default t) = None"
      and o: "one_at_a_time 0 (es @ [CallSettled (Resolved t)])"
      and r: "run parse initial_world (es @ [CallSettled (Resolved t)]) = Some w"
  proof -
    from settle_after_serial[OF r o] obtain st0 where
      "result st0 = JNull" "error st0 = None"
      "app w = analyzeImage_settle parse (Resolved t) st0" by blast
    with p show ?thesis
      by (simp add: settle_eq Failed_def Analyzing_def truthy_str_def failure_message_def)
  qed
  have first: "parse ''{}'' = Some (JObject []) \<longrightarrow> t = None \<or> t = Some [] \<longrightarrow>
      analyzeImage_settle parse (Resolved t) st
        = st\<lparr>result := JObject [], isAnalyzing := False\<rparr>
      \<and> (\<forall>f \<in> set fieldNames.
            get_prop (result (analyzeImage_settle parse (Resolved t) st)) f = None)
      \<and> error (analyzeImage_settle parse (Resolved t) st) = error st
      \<and> analyzeImage parse (Resolved t) st
        = st\<lparr>error := None, result := JObject [], isAnalyzing := False\<rparr>
      \<and> (one_at_a_time 0 (es @ [CallSettled (Resolved t)]) \<longrightarrow>
         run parse initial_world (es @ [CallSettled (Resolved t)]) = Some w \<longrightarrow>
           result (app w) = JObject [] \<and> error (app w) = None
           \<and> \<not> Failed (app w) \<and> \<not> Analyzing (app w))"
  proof (intro impI)
    assume p: "parse ''{}'' = Some (JObject [])" and e: "t = None \<or> t = Some []"
    from p e have "analyzeImage_settle parse (Resolved t) st
        = st\<lparr>result := JObject [], isAnalyzing := False\<rparr>"
      by (auto simp: settle_eq body_or_default_def)
    with empty[OF p e] show "analyzeImage_settle parse (Resolved t) st
        = st\<lparr>result := JObject [], isAnalyzing := False\<rparr>
      \<and> (\<forall>f \<in> set fieldNames.
            get_prop (result (analyzeImage_settle parse (Resolved t) st)) f = None)
      \<and> error (analyzeImage_settle parse (Resolved t) st) = error st
      \<and> analyzeImage parse (Resolved t) st
        = st\<lparr>error := None, result := JObject [], isAnalyzing := False\<rparr>
      \<and> (one_at_a_time 0 (es @ [CallSettled (Resolved t)]) \<longrightarrow>
         run parse initial_world (es @ [CallSettled (Resolved t)]) = Some w \<longrightarrow>
           result (app w) = JObject [] \<and> error (app w) = None
           \<and> \<not> Failed (app w) \<and> \<not> Analyzing (app w))"
      using p e by (auto simp: analyzeImage_def settle_eq begin_eq body_or_default_def)
  qed
  have second: "parse (body_or_default t) = None \<longrightarrow>
      analyzeImage_settle parse (Resolved t) st
        = st\<lparr>error := Some failure_message, isAnalyzing := False\<rparr>
      \<and> Failed (analyzeImage_settle parse (Resolved t) st)
      \<and> result (analyzeImage_settle parse (Resolved t) st) = result st
      \<and> analyzeImage parse (Resolved t) st
        = st\<lparr>isAnalyzing := False, result := JNull, error := Some failure_message\<rparr>
      \<and> (one_at_a_time 0 (es @ [CallSettled (Resolved t)]) \<longrightarrow>
         run parse initial_world (es @ [CallSettled (Resolved t)]) = Some w \<longrightarrow>
           Failed (app w) \<and> error (app w) = Some failure_message
           \<and> result (app w) = JNull \<and> \<not> Analyzing (app w))"
  proof (intro impI)
    assume p: "parse (body_or_default t) = None"
    with bad[OF p] show "analyzeImage_settle parse (Resolved t) st
        = st\<lparr>error := Some failure_message, isAnalyzing := False\<rparr>
      \<and> Failed (analyzeImage_settle parse (Resolved t) st)
      \<and> result (analyzeImage_settle parse (Resolved t) st) = result st
      \<and> analyzeImage parse (Resolved t) st
        = st\<lparr>isAnalyzing := False, result := JNull, error := Some failure_message\<rparr>
      \<and> (one_at_a_time 0 (es @ [CallSettled (Resolved t)]) \<longrightarrow>
         run parse initial_world (es @ [CallSettled (Resolved t)]) = Some w \<longrightarrow>
           Failed (app w) \<and> error (app w) = Some failure_message
           \<and> result (app w) = JNull \<and> \<not> Analyzing (app w))"
      by (simp add: analyzeImage_def settle_eq begin_eq Failed_def truthy_str_def
            failure_message_def)
  qed
  from first second show ?thesis by (rule conjI)
qed

theorem empty_body_fallback_witness:
  "sample_parse ''{}'' = Some (JObject [])
   \<and> one_at_a_time 0
        ([FileLoaded ''data:image/jpeg;base64,EEEE''] @ [CallSettled (Resolved (Some []))])
   \<and> run sample_parse initial_world
        ([FileLoaded ''data:image/jpeg;base64,EEEE''] @ [CallSettled (Resolved (Some []))])
      = Some \<lparr>app = \<lparr>image_st = Some ''data:image/jpeg;base64,EEEE'', isAnalyzing = False,
                      result = JObject [], error = None\<rparr>,
              in_flight = 0\<rparr>
   \<and> get_prop (JObject []) ''diseaseName'' = None
   \<and> \<not> Failed \<lparr>image_st = Some ''data:image/jpeg;base64,EEEE'', isAnalyzing = False,
                 result = JObject [], error = None\<rparr>
   \<and> sample_parse (body_or_default (Some ''<html>'')) = None
   \<and> one_at_a_time 0
        ([FileLoaded ''data:image/jpeg;base64,EEEE'']
           @ [CallSettled (Resolved (Some ''<html>''))])
   \<and> run sample_parse initial_world
        ([FileLoaded ''data:image/jpeg;base64,EEEE'']
           @ [CallSettled (Resolved (Some ''<html>''))])
      = Some \<lparr>app = \<lparr>image_st = Some ''data:image/jpeg;base64,EEEE'', isAnalyzing = False,
                      result = JNull, error = Some failure_message\<rparr>,
              in_flight = 0\<rparr>
   \<and> Failed \<lparr>image_st = Some ''data:image/jpeg;base64,EEEE'', isAnalyzing = False,
               result = JNull, error = Some failure_message\<rparr>"
  using empty_body_fallback
          [of sample_parse "Some []" initial_state
              "[FileLoaded ''data:image/jpeg;base64,EEEE'']"
              "\<lparr>app = \<lparr>image_st = Some ''data:image/jpeg;base64,EEEE'', isAnalyzing = False,
                       result = JObject [], error = None\<rparr>,
                in_flight = 0\<rparr>"]
    empty_body_fallback
          [of sample_parse "Some ''<html>''" initial_state
              "[FileLoaded ''data:image/jpeg;base64,EEEE'']"
              "\<lparr>app = \<lparr>image_st = Some ''data:image/jpeg;base64,EEEE'', isAnalyzing = False,
                       result = JNull, error = Some failure_message\<rparr>,
                in_flight = 0\<rparr>"]
  by (simp add: world_defs onloadend_eq settle_eq sample_parse_def body_or_default_def
        healthy_text_def fieldNames_def)

subsection \<open>C3: reset and Idle\<close>

text \<open>
  C3, as stated, says that a reset reaches \<open>Idle\<close> from every state, \<open>Analyzing\<close> included.
  The reset does not write the flag \<^verbatim>\<open>isAnalyzing\<close>, so after a reset during an analysis
  the placeholder of line 248 is not shown.
\<close>

theorem reset_while_analyzing_counterexample:
  "Analyzing (onloadend ''data:image/jpeg;base64,AAAA'' initial_state)
   \<and> \<not> Idle (reset (onloadend ''data:image/jpeg;base64,AAAA'' initial_state))
   \<and> Analyzing (reset (onloadend ''data:image/jpeg;base64,AAAA'' initial_state))"
  by (simp add: Analyzing_def Idle_def onloadend_eq reset_eq initial_state_def)

text \<open>
  C3, amended. From every state a reset clears the image, the result and the error. The
  state after it is \<open>Idle\<close> exactly when no analysis was in progress; in particular it is
  \<open>Idle\<close> after a reset from \<open>Ready\<close> or from \<open>Failed\<close> with no analysis in progress.
\<close>

theorem reset_clears:
  "image_st (reset st) = None \<and> result (reset st) = JNull \<and> error (reset st) = None
   \<and> (Idle (reset st) \<longleftrightarrow> \<not> Analyzing st)
   \<and> (Ready st \<or> Failed st \<longrightarrow> \<not> Analyzing st \<longrightarrow> Idle (reset st))"
  by (simp add: reset_eq Idle_def Analyzing_def truthy_str_def)

theorem reset_clears_witness:
  "Ready (analyzeImage sample_parse (Resolved (Some healthy_text)) initial_state)
   \<and> \<not> Analyzing (analyzeImage sample_parse (Resolved (Some healthy_text)) initial_state)
   \<and> Idle (reset (analyzeImage sample_parse (Resolved (Some healthy_text)) initial_state))"
  using reset_clears [of "analyzeImage sample_parse (Resolved (Some healthy_text)) initial_state"]
  by (simp add: analyzeImage_def begin_eq settle_eq body_or_default_def sample_parse_def
        healthy_text_def healthy_response_def Ready_def Analyzing_def initial_state_def)

subsection \<open>C4: a failed call\<close>

text \<open>
  C4, as stated, says that after every failing call the result is absent. The \<^verbatim>\<open>catch\<close>
  branch never writes the result, and no call is tagged or cancelled: when an earlier
  call has stored its result while a later one was in flight, the failure of the later
  call leaves that result beside the error.
\<close>

theorem failed_call_stale_result_counterexample:
  "run sample_parse initial_world
     [FileLoaded ''data:image/png;base64,AAAA'', ResetClicked,
      FileLoaded ''data:image/png;base64,BBBB'',
      CallSettled (Resolved (Some healthy_text))]
   = Some \<lparr>app = \<lparr>image_st = Some ''data:image/png;base64,BBBB'', isAnalyzing = False,
                   result = healthy_response, error = None\<rparr>,
           in_flight = 1\<rparr>
   \<and> fire sample_parse
        \<lparr>app = \<lparr>image_st = Some ''data:image/png;base64,BBBB'', isAnalyzing = False,
                 result = healthy_response, error = None\<rparr>,
         in_flight = 1\<rparr>
        (CallSettled (Rejected ''timeout''))
     = Some \<lparr>app = \<lparr>image_st = Some ''data:image/png;base64,BBBB'', isAnalyzing = False,
                     result = healthy_response, error = Some failure_message\<rparr>,
             in_flight = 0\<rparr>
   \<and> healthy_response \<noteq> JNull
   \<and> Ready \<lparr>image_st = Some ''data:image/png;base64,BBBB'', isAnalyzing = False,
             result = healthy_response, error = Some failure_message\<rparr>"
  by (simp add: world_defs onloadend_eq reset_eq settle_eq body_or_default_def
        sample_parse_def healthy_text_def healthy_response_def Ready_def)

text \<open>
  C4, amended. When the outbound call fails, whatever was thrown, the settlement stores
  exactly the fixed message, so the state is \<open>Failed\<close>, clears the flag and leaves the
  result as it was; the state does not depend on what was thrown. In every sequence in
  which an image is submitted only while no earlier call is in flight, the state after a
  failing call is \<open>Failed\<close> with the fixed message and the result is absent.
\<close>

theorem failed_call_fixed_message:
  "analyzeImage_settle parse (Rejected cause) st
     = st\<lparr>error := Some failure_message, isAnalyzing := False\<rparr>
   \<and> result (analyzeImage_settle parse (Rejected cause) st) = result st
   \<and> Failed (analyzeImage_settle parse (Rejected cause) st)
   \<and> analyzeImage_settle parse (Rejected cause) st
     = analyzeImage_settle parse (Rejected cause') st
   \<and> failure_message = ''Failed to analyze image. Please try again with a clearer photo.''
   \<and> analyzeImage parse (Rejected cause) st
     = st\<lparr>isAnalyzing := False, result := JNull, error := Some failure_message\<rparr>
   \<and> (one_at_a_time 0 (es @ [CallSettled (Rejected cause)]) \<longrightarrow>
      run parse initial_world (es @ [CallSettled (Rejected cause)]) = Some w \<longrightarrow>
        result (app w) = JNull \<and> error (app w) = Some failure_message
        \<and> Failed (app w) \<and> \<not> Ready (app w) \<and> \<not> Analyzing (app w))"
proof -
  have "result (app w) = JNull \<and> error (app w) = Some failure_message
        \<and> Failed (app w) \<and> \<not> Ready (app w) \<and> \<not> Analyzing (app w)"
    if s: "one_at_a_time 0 (es @ [CallSettled (Rejected cause)])"
      and r: "run parse initial_world (es @ [CallSettled (Rejected cause)]) = Some w"
  proof -
    from settle_after_serial[OF r s] obtain st0 where
      "result st0 = JNull" "error st0 = None"
      "app w = analyzeImage_settle parse (Rejected cause) st0" by blast
    then show ?thesis
      by (simp add: settle_eq Failed_def Ready_def Analyzing_def truthy_str_def
            failure_message_def)
  qed
  then show ?thesis
    by (simp add: settle_eq begin_eq analyzeImage_def Failed_def truthy_str_def
          failure_message_def)
qed

theorem failed_call_fixed_message_witness:
  "one_at_a_time 0
     ([FileLoaded ''data:image/png;base64,AAAA'', ResetClicked]
        @ [CallSettled (Rejected ''timeout'')])
   \<and> run sample_parse initial_world
        ([FileLoaded ''data:image/png;base64,AAAA'', ResetClicked]
           @ [CallSettled (Rejected ''timeout'')])
      = Some \<lparr>app = \<lparr>image_st = None, isAnalyzing = False, result = JNull,
                      error = Some failure_message\<rparr>,
              in_flight = 0\<rparr>
   \<and> Failed \<lparr>image_st = None, isAnalyzing = False, result = JNull,
              error = Some failure_message\<rparr>
   \<and> \<not> Ready \<lparr>image_st = None, isAnalyzing = False, result = JNull,
                error = Some failure_message\<rparr>"
  using failed_call_fixed_message
          [of sample_parse "''timeout''" initial_state "''timeout''"
              "[FileLoaded ''data:image/png;base64,AAAA'', ResetClicked]"
              "\<lparr>app = \<lparr>image_st = None, isAnalyzing = False, result = JNull,
                      error = Some failure_message\<rparr>,
                in_flight = 0\<rparr>"]
  by (simp add: world_defs onloadend_eq reset_eq settle_eq)

subsection \<open>C5: a successful response\<close>

text \<open>
  C5, as stated, says that after every successful response with all seven fields the
  error is absent. The success path never writes the error, and no call is tagged or
  cancelled: when an earlier call has failed while a later one was in flight, the
  success of the later call leaves that error beside the result.
\<close>

theorem successful_call_stale_error_counterexample:
  "sample_parse (body_or_default (Some healthy_text)) = Some (JObject healthy_props)
   \<and> set fieldNames \<subseteq> fst ` set healthy_props
   \<and> run sample_parse initial_world
        [FileLoaded ''data:image/jpeg;base64,CCCC'', ResetClicked,
         FileLoaded ''data:image/jpeg;base64,DDDD'',
         CallSettled (Rejected ''offline'')]
      = Some \<lparr>app = \<lparr>image_st = Some ''data:image/jpeg;base64,DDDD'', isAnalyzing = False,
                      result = JNull, error = Some failure_message\<rparr>,
              in_flight = 1\<rparr>
   \<and> fire sample_parse
        \<lparr>app = \<lparr>image_st = Some ''data:image/jpeg;base64,DDDD'', isAnalyzing = False,
                 result = JNull, error = Some failure_message\<rparr>,
         in_flight = 1\<rparr>
        (CallSettled (Resolved (Some healthy_text)))
     = Some \<lparr>app = \<lparr>image_st = Some ''data:image/jpeg;base64,DDDD'', isAnalyzing = False,
                     result = JObject healthy_props, error = Some failure_message\<rparr>,
             in_flight = 0\<rparr>
   \<and> Some failure_message \<noteq> None
   \<and> Failed \<lparr>image_st = Some ''data:image/jpeg;base64,DDDD'', isAnalyzing = False,
              result = JObject healthy_props, error = Some failure_message\<rparr>"
  by (simp add: world_defs onloadend_eq reset_eq settle_eq body_or_default_def
        sample_parse_def healthy_text_def healthy_response_def fieldNames_def
        healthy_props_def Failed_def truthy_str_def failure_message_def)

text \<open>
  C5, amended. When the body parses to an object that has all seven fields, the
  settlement stores that object as the result, so the state is \<open>Ready\<close> and each of the
  seven fields reads as in the response, clears the flag and leaves the error as it was.
  In every sequence in which an image is submitted only while no earlier call is in
  flight, the state after such a response is \<open>Ready\<close> with that object and the error is
  absent.
\<close>

theorem successful_response_ready:
  assumes "parse (body_or_default t) = Some (JObject props)"
    and "set fieldNames \<subseteq> fst ` set props"
  shows "analyzeImage_settle parse (Resolved t) st
           = st\<lparr>result := JObject props, isAnalyzing := False\<rparr>
   \<and> Ready (analyzeImage_settle parse (Resolved t) st)
   \<and> (\<forall>f \<in> set fieldNames.
         get_prop (result (analyzeImage_settle parse (Resolved t) st)) f = map_of props f
         \<and> map_of props f \<noteq> None)
   \<and> error (analyzeImage_settle parse (Resolved t) st) = error st
   \<and> \<not> Analyzing (analyzeImage_settle parse (Resolved t) st)
   \<and> analyzeImage parse (Resolved t) st
       = st\<lparr>error := None, result := JObject props, isAnalyzing := False\<rparr>
   \<and> (one_at_a_time 0 (es @ [CallSettled (Resolved t)]) \<longrightarrow>
      run parse initial_world (es @ [CallSettled (Resolved t)]) = Some w \<longrightarrow>
        result (app w) = JObject props \<and> error (app w) = None
        \<and> Ready (app w) \<and> \<not> Failed (app w) \<and> \<not> Analyzing (app w))"
proof -
  have s: "analyzeImage_settle parse (Resolved t) st0
             = st0\<lparr>result := JObject props, isAnalyzing := False\<rparr>" for st0
    using assms(1) by (simp add: settle_eq)
  have m: "map_of props f \<noteq> None" if "f \<in> set fieldNames" for f
    using that assms(2) by (auto simp: map_of_eq_None_iff)
  have serial: "result (app w) = JObject props \<and> error (app w) = None
        \<and> Ready (app w) \<and> \<not> Failed (app w) \<and> \<not> Analyzing (app w)"
    if o: "one_at_a_time 0 (es @ [CallSettled (Resolved t)])"
      and r: "run parse initial_world (es @ [CallSettled (Resolved t)]) = Some w"
  proof -
    from settle_after_serial[OF r o] obtain st0 where
      "result st0 = JNull" "error st0 = None"
      "app w = analyzeImage_settle parse (Resolved t) st0" by blast
    then show ?thesis
      by (simp add: s Failed_def Ready_def Analyzing_def truthy_str_def)
  qed
  from m serial show ?thesis
    by (simp add: s analyzeImage_def begin_eq Ready_def Analyzing_def)
qed

theorem successful_response_ready_witness:
  "sample_parse (body_or_default (Some healthy_text)) = Some (JObject healthy_props)
   \<and> set fieldNames \<subseteq> fst ` set healthy_props
   \<and> one_at_a_time 0
        ([FileLoaded ''data:image/jpeg;base64,CCCC'']
           @ [CallSettled (Resolved (Some healthy_text))])
   \<and> run sample_parse initial_world
        ([FileLoaded ''data:image/jpeg;base64,CCCC'']
           @ [CallSettled (Resolved (Some healthy_text))])
      = Some \<lparr>app = \<lparr>image_st = Some ''data:image/jpeg;base64,CCCC'', isAnalyzing = False,
                      result = JObject healthy_props, error = None\<rparr>,
              in_flight = 0\<rparr>
   \<and> Ready \<lparr>image_st = Some ''data:image/jpeg;base64,CCCC'', isAnalyzing = False,
             result = JObject healthy_props, error = None\<rparr>
   \<and> get_prop (JObject healthy_props) ''confidence'' = Some (JString ''99%'')"
proof -
  have p: "sample_parse (body_or_default (Some healthy_text)) = Some (JObject healthy_props)"
    by (simp add: sample_parse_def body_or_default_def healthy_text_def healthy_response_def)
  have s: "set fieldNames \<subseteq> fst ` set healthy_props"
    by (simp add: fieldNames_def healthy_props_def)
  have r: "run sample_parse initial_world
        ([FileLoaded ''data:image/jpeg;base64,CCCC'']
           @ [CallSettled (Resolved (Some healthy_text))])
      = Some \<lparr>app = \<lparr>image_st = Some ''data:image/jpeg;base64,CCCC'', isAnalyzing = False,
                      result = JObject healthy_props, error = None\<rparr>,
              in_flight = 0\<rparr>"
    using p by (simp add: world_defs onloadend_eq settle_eq)
  from successful_response_ready
         [of sample_parse "Some healthy_text" healthy_props initial_state
             "[FileLoaded ''data:image/jpeg;base64,CCCC'']"
             "\<lparr>app = \<lparr>image_st = Some ''data:image/jpeg;base64,CCCC'', isAnalyzing = False,
                      result = JObject healthy_props, error = None\<rparr>,
              in_flight = 0\<rparr>", OF p s] p s r
  show ?thesis by (simp add: healthy_props_def)
qed

subsection \<open>C6: entering Analyzing\<close>

text \<open>
  C6. For every image, the synchronous part of a submission sets the flag and clears the
  result and the error, before the call can settle. Hence in every reachable state,
  whatever the interleaving, the result and the error are absent while the flag is set.
\<close>

theorem analyzing_clears:
  "isAnalyzing (analyzeImage_begin st) \<and> result (analyzeImage_begin st) = JNull
   \<and> error (analyzeImage_begin st) = None
   \<and> Analyzing (onloadend base64 st) \<and> image_st (onloadend base64 st) = Some base64
   \<and> (\<forall>es w. run parse initial_world es = Some w \<longrightarrow> Analyzing (app w) \<longrightarrow>
         result (app w) = JNull \<and> error (app w) = None)"
proof -
  have "cleared_while_analyzing initial_world"
    by (simp add: cleared_while_analyzing_def initial_world_def initial_state_def)
  then have "\<forall>es w. run parse initial_world es = Some w \<longrightarrow> cleared_while_analyzing w"
    using run_cleared by blast
  then show ?thesis
    by (simp add: begin_eq onloadend_eq Analyzing_def cleared_while_analyzing_def)
qed

theorem analyzing_clears_witness:
  "run sample_parse initial_world [FileLoaded ''data:image/jpeg;base64,AAAA'', ResetClicked]
     = Some \<lparr>app = \<lparr>image_st = None, isAnalyzing = True, result = JNull, error = None\<rparr>,
             in_flight = 1\<rparr>
   \<and> Analyzing \<lparr>image_st = None, isAnalyzing = True, result = JNull, error = None\<rparr>
   \<and> result \<lparr>image_st = None, isAnalyzing = True, result = JNull, error = None\<rparr> = JNull
   \<and> error \<lparr>image_st = None, isAnalyzing = True, result = JNull, error = None\<rparr> = None"
  using analyzing_clears [of initial_state "''data:image/jpeg;base64,AAAA''" sample_parse]
  by (simp add: world_defs onloadend_eq reset_eq Analyzing_def)

subsection \<open>C7: the declared content type\<close>

text \<open>
  C7 says that the request carries the content type declared for the image. The request
  names \<^verbatim>\<open>image/jpeg\<close> whatever the file is: a PNG file is sent as \<^verbatim>\<open>image/jpeg\<close>, with
  its own base64 text as data.
\<close>

theorem png_sent_as_jpeg:
  "mimeType (generateContent_request
      (readAsDataURL \<lparr>file_type = ''image/png'', file_base64 = ''iVBORw0KGgo=''\<rparr>))
     = ''image/jpeg''
   \<and> data (generateContent_request
      (readAsDataURL \<lparr>file_type = ''image/png'', file_base64 = ''iVBORw0KGgo=''\<rparr>))
     = Some ''iVBORw0KGgo=''
   \<and> file_type \<lparr>file_type = ''image/png'', file_base64 = ''iVBORw0KGgo=''\<rparr> \<noteq> ''image/jpeg''"
  by (simp add: generateContent_request_def readAsDataURL_def at_index_def)

subsection \<open>C8: the healthy scenario\<close>



subsection \<open>C9: reset twice\<close>

text \<open>
  C9. \<^verbatim>\<open>reset()\<close> is idempotent: from every starting state, calling it twice in a row
  gives exactly the state that calling it once gives.
\<close>

theorem reset_idempotent: "reset (reset st) = reset st"
  by (simp add: reset_def setError_def setResult_def setImage_def)

subsection \<open>C10: what reset leaves alone\<close>

text \<open>
  C10. A reset writes the image, the result and the error and nothing else: the flag
  \<^verbatim>\<open>isAnalyzing\<close> keeps its value. A reset during an analysis is always possible and leaves
  the state \<open>Analyzing\<close>, with as many calls in flight as before. The only event that ends
  \<open>Analyzing\<close> is the settlement of a call, and every settlement ends it.
\<close>

theorem reset_frame:
  "reset st = st\<lparr>image_st := None, result := JNull, error := None\<rparr>
   \<and> isAnalyzing (reset st) = isAnalyzing st
   \<and> \<not> Analyzing (analyzeImage_settle parse outcome st)
   \<and> (Analyzing (app w) \<longrightarrow>
        (\<exists>w'. fire parse w ResetClicked = Some w' \<and> Analyzing (app w')
              \<and> in_flight w' = in_flight w))
   \<and> (\<forall>e w'. Analyzing (app w) \<longrightarrow> fire parse w e = Some w' \<longrightarrow>
        \<not> Analyzing (app w') \<longrightarrow> (\<exists>outcome. e = CallSettled outcome))"
proof -
  have "\<exists>outcome. e = CallSettled outcome"
    if "Analyzing (app w)" "fire parse w e = Some w'" "\<not> Analyzing (app w')" for e w'
    using that by (cases e) (auto simp: Analyzing_def onloadend_eq reset_eq)
  then show ?thesis
    by (simp add: reset_eq settle_eq Analyzing_def split: sum.splits)
qed

theorem reset_frame_witness:
  "Analyzing
     (app \<lparr>app = onloadend ''data:image/jpeg;base64,AAAA'' initial_state, in_flight = 1\<rparr>)
   \<and> fire sample_parse
        \<lparr>app = onloadend ''data:image/jpeg;base64,AAAA'' initial_state, in_flight = 1\<rparr>
        (CallSettled (Rejected ''offline''))
      = Some \<lparr>app = \<lparr>image_st = Some ''data:image/jpeg;base64,AAAA'', isAnalyzing = False,
                      result = JNull, error = Some failure_message\<rparr>, in_flight = 0\<rparr>
   \<and> \<not> Analyzing \<lparr>image_st = Some ''data:image/jpeg;base64,AAAA'', isAnalyzing = False,
                      result = JNull, error = Some failure_message\<rparr>
   \<and> fire sample_parse
        \<lparr>app = onloadend ''data:image/jpeg;base64,AAAA'' initial_state, in_flight = 1\<rparr>
        ResetClicked
      = Some \<lparr>app = \<lparr>image_st = None, isAnalyzing = True, result = JNull, error = None\<rparr>,
              in_flight = 1\<rparr>"
  using reset_frame
          [of initial_state sample_parse "Rejected ''offline''"
              "\<lparr>app = onloadend ''data:image/jpeg;base64,AAAA'' initial_state,
                in_flight = 1\<rparr>"]
  by (simp add: Analyzing_def onloadend_eq reset_eq settle_eq initial_state_def)

end
